theory Spec2Isabelle
  imports Complex_Main
begin

section \<open>Python values and errors\<close>

text \<open>
  The wrapper class \<open>OscCalculator\<close> of \<open>deimos/wrapper/osc_calculator.py\<close> is embedded
  with explicit state passing. Every \<open>assert\<close>, \<open>raise\<close> and failing built-in operation of the
  source is a value of \<open>pyerr\<close>; an \<open>AssertionError\<close> carries the message of the
  \<open>assert\<close> statement when the source gives one, and \<open>ExceptionFmt fmt v\<close> is
  \<open>Exception(fmt % v)\<close>.
\<close>

text \<open>
  Values held in the keyword arguments and in the settings dictionaries: \<open>None\<close>, a string,
  a Python float, a one-dimensional \<open>numpy\<close> array of floats, a tuple. Floats are idealised
  as real numbers throughout.
\<close>

datatype pyval =
    PyNone
  | PyStr string
  | PyFloat real
  | PyArray "real list"
  | PyTuple "pyval list"

datatype pyerr =
    AssertionError "string option"
  | TypeError
  | KeyError string
  | IndexError
  | AttributeError
  | ZeroDivisionError
  | Exception string
  | ExceptionFmt string pyval

datatype tool = Nusquids | Deimos | Prob3

text \<open>An \<open>initial_flavor\<close> argument: a string label or an integer.\<close>

datatype flavor_arg = FStr string | FInt int

text \<open>
  Python 3 ordering between the \<open>flavor\<close> argument and an integer: defined for integers,
  a \<open>TypeError\<close> for a string.
\<close>

fun py_less_int :: "flavor_arg \<Rightarrow> int \<Rightarrow> pyerr + bool" where
  "py_less_int (FStr s) n = Inl TypeError"
| "py_less_int (FInt i) n = Inr (i < n)"

type_synonym pydict = "string \<rightharpoonup> pyval"

text \<open>Dictionary lookup \<open>d[k]\<close>.\<close>

definition getitem :: "pydict \<Rightarrow> string \<Rightarrow> pyerr + pyval" where
  "getitem d k = (case d k of None \<Rightarrow> Inl (KeyError k) | Some v \<Rightarrow> Inr v)"



text \<open>An entry of a probability array: a finite float, an infinity or a NaN.\<close>

datatype fval = Fin real | PosInf | NegInf | NaN


section \<open>The calculator and its collaborators\<close>

text \<open>
  The external solver libraries are collaborators, not code of the wrapper. The nuSQuIDS
  object is represented by the sequence of calls it has received (oldest first); what it
  answers to a query is a parameter of the model (record \<open>externals\<close> below) that may
  depend on that sequence.
\<close>

datatype body =
    Vacuum
  | ConstantDensity pyval pyval
  | VariableDensity pyval pyval pyval

datatype track = VacuumTrack real | ConstantDensityTrack real

text \<open>
  An initial state array: the one the wrapper builds (all zero but for 1 at the given
  neutrino/antineutrino index and flavor index), or one supplied by the caller, with its
  shape and contents.
\<close>

datatype istate =
    PureFlavor "nat list" nat int
  | UserState "nat list" "real list"


datatype nsq_call =
    Set_Body body
  | Set_EarthModel
  | Set_Track track
  | Set_initial_state istate
  | EvolveState
  | Set_CPPhase nat nat real
  | Set_MixingAngle nat nat real
  | Set_SquareMassDifference nat real
  | Set_DecoherenceGammaMatrix "real list list"
  | Set_DecoherenceGammaEnergyDependence real
  | Set_DecoherenceGammaEnergyScale real

text \<open>
  The matter potential handed to the DEIMOS solver: the result of the external function
  \<open>get_matter_potential_flav\<close>, kept symbolic by its density and electron fraction arguments.
\<close>

datatype potential = MatterPotentialFlav pyval pyval

text \<open>
  Modelled from the spec: \<open>DensityMatrixOscSolver\<close> (module
  \<open>deimos.density_matrix_osc_solver\<close>, missing from the sources at hand) owns the parameter
  record; its setters store the arrays they are given and its getters return previously-set
  values. An attribute that was never set is \<open>None\<close> here.
\<close>

record solver_state =
  matter_potential :: "potential option"
  theta_rad :: "real list option"
  deltacp :: "real option"
  mass_splittings_eV2 :: "real list option"

text \<open>The decoherence settings \<open>_decoh_model_kw\<close> stored for the DEIMOS solver.\<close>

record decoh_model_kw =
  D_matrix0_eV :: "complex list list"
  decoh_n :: real
  E0_eV :: real
  D_matrix_basis :: string

text \<open>The attributes of an \<open>OscCalculator\<close> instance that the modelled methods read or write.\<close>

record osc_calculator =
  tool :: tool
  atmospheric :: bool
  num_neutrinos :: nat
  matter_settings :: pydict
  nusquids :: "nsq_call list"
  nusquids_variant :: "string option"
  solver :: solver_state
  calc_basis :: "string option"
  decoh_model :: "decoh_model_kw option"
  prob3_settings :: pydict
  detector_depth_m :: "real option"

text \<open>A method result: the value or the exception, and the instance as the method left it.\<close>

type_synonym 'a res = "(pyerr + 'a) \<times> osc_calculator"

text \<open>
  What the collaborators answer. \<open>units_eV\<close>, \<open>units_km\<close>, \<open>units_GeV\<close> are the constants
  of \<open>nsq.Const()\<close>; the queries of the nuSQuIDS object depend on the calls it has
  received; \<open>solver_calc_osc_probs\<close> is \<open>DensityMatrixOscSolver.calc_osc_probs\<close>;
  \<open>prob3_probability\<close> is what the Prob3 propagator returns for given settings, energy,
  distance, initial and final flavor.
\<close>

record solver_call =
  call_solver :: solver_state
  call_E_GeV :: "real list"
  call_L_km :: "real list"
  call_initial_state :: int
  call_nubar :: bool
  call_calc_basis :: "string option"
  call_decoh_opts :: "decoh_model_kw option"

datatype prob3_call =
  Prob3_call (sin2_theta: "real \<times> real \<times> real") (dm21_dm32: "real \<times> real")
    (p3_deltacp: pyval) (p3_energy: real) (KNuType: int) (p3_density: "pyval option")
    (p3_distance: real) (p3_initial: int) (p3_final: int)

record externals =
  units_eV :: real
  units_km :: real
  units_GeV :: real
  Get_SquareMassDifference :: "nsq_call list \<Rightarrow> nat \<Rightarrow> real"
  GetNumE :: nat
  GetNumCos :: nat
  EvalFlavor :: "nsq_call list \<Rightarrow> nat \<Rightarrow> real option \<Rightarrow> real \<Rightarrow> nat \<Rightarrow> fval"
  solver_calc_osc_probs :: "solver_call \<Rightarrow> pyerr + fval list list list"
  calc_path_length_from_coszen :: "real \<Rightarrow> real \<Rightarrow> real \<Rightarrow> real"
  DEFAULT_ATMO_PROD_HEIGHT_km :: real
  DEFAULT_ATMO_DETECTOR_DEPTH_km :: real
  prob3_probability :: "prob3_call \<Rightarrow> fval"


section \<open>Flavor indexing\<close>

text \<open>\<open>_get_flavor_index(self, flavor)\<close>. The returned \<open>index\<close> starts as \<open>None\<close>.\<close>

definition get_flavor_index :: "osc_calculator \<Rightarrow> flavor_arg \<Rightarrow> pyerr + int option" where
  "get_flavor_index self flavor =
     (case (case flavor of
              FStr s \<Rightarrow>
                Inr (if s \<in> set [''e'', ''nue''] then Some 0
                     else if s \<in> set [''mu'', ''numu''] then Some 1
                     else if s \<in> set [''tau'', ''nutau''] then Some 2
                     else None)
            | FInt i \<Rightarrow>
                (if i \<in> set [0, 1, 2] then Inr (Some i) else Inl (AssertionError None)))
      of Inl e \<Rightarrow> Inl e
       | Inr index \<Rightarrow>
           (case py_less_int flavor (int (num_neutrinos self)) of
              Inl e \<Rightarrow> Inl e
            | Inr b \<Rightarrow> if b then Inr index else Inl (AssertionError None)))"

section \<open>Matter models\<close>











definition call_nusquids :: "nsq_call \<Rightarrow> osc_calculator \<Rightarrow> osc_calculator" where
  "call_nusquids c self = self\<lparr>nusquids := nusquids self @ [c]\<rparr>"









section \<open>Oscillation parameters\<close>

text \<open>\<open>set_mixing_angles(self, theta12, theta13=None, theta23=None, deltacp=0.)\<close>.\<close>

definition set_mixing_angles ::
  "osc_calculator \<Rightarrow> real \<Rightarrow> real option \<Rightarrow> real option \<Rightarrow> real \<Rightarrow> unit res" where
  "set_mixing_angles self theta12 theta13 theta23 dcp =
     (if (if num_neutrinos self = 2 then theta13 \<noteq> None \<or> theta23 \<noteq> None
          else theta13 = None \<or> theta23 = None)
      then (Inl (AssertionError None), self)
      else
        (case tool self of
           Nusquids \<Rightarrow>
             (let s1 = call_nusquids (Set_CPPhase 0 2 dcp) self;
                  s2 = call_nusquids (Set_MixingAngle 0 1 theta12) s1
              in if num_neutrinos self > 2
                 then (Inr (), call_nusquids (Set_MixingAngle 1 2 (the theta23))
                                 (call_nusquids (Set_MixingAngle 0 2 (the theta13)) s2))
                 else (Inr (), s2))
         | Deimos \<Rightarrow>
             (Inr (), self\<lparr>solver := (solver self)
                \<lparr>theta_rad := Some (List.map_filter (\<lambda>t. t) [Some theta12, theta13, theta23]),
                 deltacp := Some dcp\<rparr>\<rparr>)
         | Prob3 \<Rightarrow>
             (Inr (), self\<lparr>prob3_settings := (prob3_settings self)
                (''theta12'' \<mapsto> PyFloat theta12,
                 ''theta13'' \<mapsto> (case theta13 of None \<Rightarrow> PyNone | Some t \<Rightarrow> PyFloat t),
                 ''theta23'' \<mapsto> (case theta23 of None \<Rightarrow> PyNone | Some t \<Rightarrow> PyFloat t),
                 ''deltacp'' \<mapsto> PyFloat dcp)\<rparr>)))"

text \<open>\<open>get_mixing_angles(self)\<close>.\<close>

definition get_mixing_angles :: "osc_calculator \<Rightarrow> pyerr + pyval" where
  "get_mixing_angles self =
     (case tool self of
        Deimos \<Rightarrow>
          (case theta_rad (solver self) of
             None \<Rightarrow> Inl AttributeError
           | Some ts \<Rightarrow> Inr (PyArray ts))
      | Prob3 \<Rightarrow>
          (if num_neutrinos self \<noteq> 3 then Inl (AssertionError None)
           else
             (case getitem (prob3_settings self) ''theta12'' of
                Inl e \<Rightarrow> Inl e
              | Inr t12 \<Rightarrow>
                  (case getitem (prob3_settings self) ''theta13'' of
                     Inl e \<Rightarrow> Inl e
                   | Inr t13 \<Rightarrow>
                       (case getitem (prob3_settings self) ''theta23'' of
                          Inl e \<Rightarrow> Inl e
                        | Inr t23 \<Rightarrow> Inr (PyTuple [t12, t13, t23])))))
      | Nusquids \<Rightarrow> Inl (Exception ''TODO''))"


text \<open>\<open>set_mass_splittings(self, deltam21, deltam31=None)\<close>.\<close>

definition set_mass_splittings ::
  "externals \<Rightarrow> osc_calculator \<Rightarrow> real \<Rightarrow> real option \<Rightarrow> unit res" where
  "set_mass_splittings ext self deltam21 deltam31 =
     (if (if num_neutrinos self = 2 then deltam31 \<noteq> None else deltam31 = None)
      then (Inl (AssertionError None), self)
      else
        (case tool self of
           Nusquids \<Rightarrow>
             (let s1 = call_nusquids
                         (Set_SquareMassDifference 1 (deltam21 * units_eV ext * units_eV ext)) self
              in case deltam31 of
                   None \<Rightarrow> (Inr (), s1)
                 | Some d31 \<Rightarrow>
                     (Inr (), call_nusquids
                        (Set_SquareMassDifference 2 (d31 * units_eV ext * units_eV ext)) s1))
         | Deimos \<Rightarrow>
             (Inr (), self\<lparr>solver := (solver self)
                \<lparr>mass_splittings_eV2 :=
                   Some (List.map_filter (\<lambda>t. t) [Some deltam21, deltam31])\<rparr>\<rparr>)
         | Prob3 \<Rightarrow>
             (Inr (), self\<lparr>prob3_settings := (prob3_settings self)
                (''deltam21'' \<mapsto> PyFloat deltam21,
                 ''deltam31'' \<mapsto> (case deltam31 of None \<Rightarrow> PyNone | Some d \<Rightarrow> PyFloat d))\<rparr>)))"

text \<open>Float division \<open>x / y\<close>, which raises for a zero divisor.\<close>

definition py_div :: "real \<Rightarrow> real \<Rightarrow> pyerr + real" where
  "py_div x y = (if y = 0 then Inl ZeroDivisionError else Inr (x / y))"

text \<open>\<open>get_mass_splittings(self)\<close>.\<close>

definition get_mass_splittings :: "externals \<Rightarrow> osc_calculator \<Rightarrow> pyerr + pyval" where
  "get_mass_splittings ext self =
     (case tool self of
        Nusquids \<Rightarrow>
          (case py_div (Get_SquareMassDifference ext (nusquids self) 1)
                       (units_eV ext * units_eV ext) of
             Inl e \<Rightarrow> Inl e
           | Inr m1 \<Rightarrow>
               if num_neutrinos self > 2 then
                 (case py_div (Get_SquareMassDifference ext (nusquids self) 2)
                              (units_eV ext * units_eV ext) of
                    Inl e \<Rightarrow> Inl e
                  | Inr m2 \<Rightarrow> Inr (PyTuple [PyFloat m1, PyFloat m2]))
               else Inr (PyTuple [PyFloat m1]))
      | Deimos \<Rightarrow>
          (case mass_splittings_eV2 (solver self) of
             None \<Rightarrow> Inl AttributeError
           | Some ms \<Rightarrow> Inr (PyArray ms))
      | Prob3 \<Rightarrow>
          (case getitem (prob3_settings self) ''deltam21'' of
             Inl e \<Rightarrow> Inl e
           | Inr d21 \<Rightarrow>
               (case getitem (prob3_settings self) ''deltam31'' of
                  Inl e \<Rightarrow> Inl e
                | Inr d31 \<Rightarrow> Inr (PyTuple [d21, d31]))))"

section \<open>Decoherence matrix checks\<close>

text \<open>
  A two-dimensional array as the list of its rows. \<open>D.shape == (r, c)\<close> is read on it as:
  \<open>r\<close> rows, each of \<open>c\<close> entries. Entries are complex numbers; float arithmetic is
  idealised as arithmetic on the reals.
\<close>

type_synonym matrix = "complex list list"

definition shape_is :: "matrix \<Rightarrow> nat \<Rightarrow> nat \<Rightarrow> bool" where
  "shape_is D r c = (length D = r \<and> list_all (\<lambda>row. length row = c) D)"

text \<open>\<open>D[i,j]\<close>, read only after the shape check.\<close>

definition entry :: "matrix \<Rightarrow> nat \<Rightarrow> nat \<Rightarrow> complex" where
  "entry D i j = D ! i ! j"

text \<open>\<open>np.all( D.imag == 0. )\<close> and \<open>np.all( D >= 0. )\<close> (the latter read after the former).\<close>

definition all_real :: "matrix \<Rightarrow> bool" where
  "all_real D = list_all (list_all (\<lambda>z. Im z = 0)) D"

definition all_nonneg :: "matrix \<Rightarrow> bool" where
  "all_nonneg D = list_all (list_all (\<lambda>z. Re z \<ge> 0)) D"

text \<open>The index pairs of the off-diagonal elements \<open>b12\<close> ... \<open>b78\<close>, in the order of the source.\<close>

definition beta_pairs :: "(nat \<times> nat) list" where
  "beta_pairs =
     [(1, 2), (1, 3), (1, 4), (1, 5), (1, 6), (1, 7), (1, 8),
      (2, 3), (2, 4), (2, 5), (2, 6), (2, 7), (2, 8),
      (3, 4), (3, 5), (3, 6), (3, 7), (3, 8),
      (4, 5), (4, 6), (4, 7), (4, 8),
      (5, 6), (5, 7), (5, 8),
      (6, 7), (6, 8),
      (7, 8)]"

text \<open>The asserts \<open>D[j,i] == bij\<close> that accompany the extraction of each \<open>bij = D[i,j]\<close>.\<close>

definition pairs_match :: "matrix \<Rightarrow> bool" where
  "pairs_match D = list_all (\<lambda>(i, j). entry D j i = entry D i j) beta_pairs"

text \<open>The diagonal elements \<open>g1\<close> ... \<open>g8\<close> and the off-diagonal elements used below.\<close>

definition g :: "matrix \<Rightarrow> nat \<Rightarrow> real" where
  "g D i = Re (entry D i i)"

definition b :: "matrix \<Rightarrow> nat \<Rightarrow> nat \<Rightarrow> real" where
  "b D i j = Re (entry D i j)"

definition a1 :: "matrix \<Rightarrow> real" where
  "a1 D = - g D 1 + g D 2 + g D 3 - (g D 8 / 3)"

definition a2 :: "matrix \<Rightarrow> real" where
  "a2 D = g D 1 - g D 2 + g D 3 - (g D 8 / 3)"

definition a3 :: "matrix \<Rightarrow> real" where
  "a3 D = g D 1 + g D 2 - g D 3 - (g D 8 / 3)"

definition a4 :: "matrix \<Rightarrow> real" where
  "a4 D = - g D 4 + g D 5 + g D 3 + (2 * g D 8 / 3) - (2 * b D 3 8 / sqrt 3)"

definition a5 :: "matrix \<Rightarrow> real" where
  "a5 D = g D 4 - g D 5 + g D 3 + (2 * g D 8 / 3) - (2 * b D 3 8 / sqrt 3)"

definition a6 :: "matrix \<Rightarrow> real" where
  "a6 D = - g D 6 + g D 7 + g D 3 + (2 * g D 8 / 3) + (2 * b D 3 8 / sqrt 3)"

definition a7 :: "matrix \<Rightarrow> real" where
  "a7 D = g D 6 - g D 7 + g D 3 + (2 * g D 8 / 3) + (2 * b D 3 8 / sqrt 3)"

definition a8 :: "matrix \<Rightarrow> real" where
  "a8 D = - (g D 1 / 3) - (g D 2 / 3) - (g D 3 / 3) + (2 * g D 4 / 3) + (2 * g D 5 / 3)
          + (2 * g D 6 / 3) + (2 * g D 7 / 3) - g D 8"

text \<open>The quadratic inequalities on \<open>b12\<close>, \<open>b13\<close>, \<open>b23\<close> and the one on \<open>b38\<close>.\<close>

definition quad12 :: "matrix \<Rightarrow> bool" where
  "quad12 D = (4 * (b D 1 2)\<^sup>2 \<le> (g D 3 - (g D 8 / 3))\<^sup>2 - (g D 1 - g D 2)\<^sup>2)"

definition quad13 :: "matrix \<Rightarrow> bool" where
  "quad13 D = (4 * (b D 1 3)\<^sup>2 \<le> (g D 2 - (g D 8 / 3))\<^sup>2 - (g D 1 - g D 3)\<^sup>2)"

definition quad23 :: "matrix \<Rightarrow> bool" where
  "quad23 D = (4 * (b D 2 3)\<^sup>2 \<le> (g D 1 - (g D 8 / 3))\<^sup>2 - (g D 2 - g D 3)\<^sup>2)"

definition quad38 :: "matrix \<Rightarrow> bool" where
  "quad38 D =
     ((4 * (b D 3 8)\<^sup>2 + (g D 4 / sqrt 3) + (g D 5 / sqrt 3) - (g D 6 / sqrt 3) - (g D 7 / sqrt 3))\<^sup>2
      \<le> a3 D * a8 D)"

text \<open>What the method prints on standard output.\<close>

datatype printed = Checks_not_implemented nat

text \<open>
  \<open>check_decoherence_D_matrix(self, D)\<close>. An \<open>assert\<close> without message is
  \<open>AssertionError None\<close>; the messages are those of the source, the one of the \<open>a6\<close>
  assert included.
\<close>

definition inequality_failure :: "string \<Rightarrow> pyerr" where
  "inequality_failure name = AssertionError (Some (''Inequality failure ('' @ name @ '')''))"

definition check_decoherence_D_matrix :: "osc_calculator \<Rightarrow> matrix \<Rightarrow> pyerr + printed list" where
  "check_decoherence_D_matrix self D =
     (if num_neutrinos self = 3 then
        (if \<not> shape_is D 9 9 then Inl (AssertionError None)
         else if \<not> all_real D then Inl (AssertionError None)
         else if \<not> all_nonneg D then Inl (AssertionError None)
         else if \<not> pairs_match D then Inl (AssertionError None)
         else if \<not> a1 D \<ge> 0 then Inl (inequality_failure ''a1'')
         else if \<not> a2 D \<ge> 0 then Inl (inequality_failure ''a2'')
         else if \<not> a3 D \<ge> 0 then Inl (inequality_failure ''a3'')
         else if \<not> a4 D \<ge> 0 then Inl (inequality_failure ''a4'')
         else if \<not> a5 D \<ge> 0 then Inl (inequality_failure ''a5'')
         else if \<not> a6 D \<ge> 0 then Inl (inequality_failure ''a1'')
         else if \<not> a7 D \<ge> 0 then Inl (inequality_failure ''a7'')
         else if \<not> a8 D \<ge> 0 then Inl (inequality_failure ''a8'')
         else if \<not> quad12 D then Inl (AssertionError None)
         else if \<not> quad13 D then Inl (AssertionError None)
         else if \<not> quad23 D then Inl (AssertionError None)
         else if \<not> quad38 D then Inl (AssertionError None)
         else Inr [])
      else Inr [Checks_not_implemented (num_neutrinos self)])"

text \<open>\<open>np.allclose(D.imag, 0.)\<close> with the default tolerances: \<open>|x| \<le> atol\<close>, \<open>atol = 1e-8\<close>.\<close>

definition imag_allclose_zero :: "matrix \<Rightarrow> bool" where
  "imag_allclose_zero D = list_all (list_all (\<lambda>z. \<bar>Im z\<bar> \<le> 1 / 10 ^ 8)) D"

text \<open>\<open>set_decoherence_D_matrix(self, D_matrix_eV, n, E0_eV)\<close>, called with an array.\<close>

definition set_decoherence_D_matrix ::
  "externals \<Rightarrow> osc_calculator \<Rightarrow> matrix \<Rightarrow> real \<Rightarrow> real \<Rightarrow> (printed list) res" where
  "set_decoherence_D_matrix ext self D_matrix_eV n E0 =
     (case check_decoherence_D_matrix self D_matrix_eV of
        Inl e \<Rightarrow> (Inl e, self)
      | Inr out \<Rightarrow>
          (case tool self of
             Nusquids \<Rightarrow>
               if nusquids_variant self \<noteq> Some ''nuSQUIDSDecoh'' then (Inl (AssertionError None), self)
               else if \<not> imag_allclose_zero D_matrix_eV then
                 (Inl (AssertionError (Some
                    ''nuSQuIDS decoherence implementation currently does not support imaginary gamma matrix'')),
                  self)
               else
                 (Inr out,
                  call_nusquids (Set_DecoherenceGammaEnergyScale E0)
                    (call_nusquids (Set_DecoherenceGammaEnergyDependence n)
                       (call_nusquids
                          (Set_DecoherenceGammaMatrix
                             (map (map (\<lambda>z. Re z * units_eV ext)) D_matrix_eV)) self)))
           | Deimos \<Rightarrow>
               (Inr out, self\<lparr>decoh_model := Some \<lparr>D_matrix0_eV = D_matrix_eV, decoh_n = n,
                                                   E0_eV = E0, D_matrix_basis = ''sun''\<rparr>\<rparr>)
           | Prob3 \<Rightarrow> (Inr out, self)))"

section \<open>Oscillation probabilities\<close>



subsection \<open>nuSQuIDS\<close>







subsection \<open>Prob3\<close>








subsection \<open>DEIMOS\<close>




subsection \<open>The entry point\<close>

text \<open>The returned array, after the single-valued dimensions are removed.\<close>

datatype result =
    R1 "fval list"
  | R2 "fval list list"
  | R3 "fval list list list"







section \<open>Fixtures\<close>

text \<open>
  The attributes of an instance as \<open>_init_nusquids\<close>, \<open>_init_deimos\<close> or \<open>_init_prob3\<close>
  leave them, before \<open>__init__\<close> applies the default matter and oscillation parameters
  through the setters above.
\<close>

definition fresh :: "tool \<Rightarrow> bool \<Rightarrow> nat \<Rightarrow> osc_calculator" where
  "fresh t atm n =
     \<lparr>tool = t, atmospheric = atm, num_neutrinos = n, matter_settings = Map.empty,
      nusquids = [], nusquids_variant = None,
      solver = \<lparr>matter_potential = None, theta_rad = None, deltacp = None,
                 mass_splittings_eV2 = None\<rparr>,
      calc_basis = None, decoh_model = None, prob3_settings = Map.empty,
      detector_depth_m = None\<rparr>"

text \<open>The all-zeros square matrix, and the one with a single non-zero diagonal entry.\<close>

definition zeros :: "nat \<Rightarrow> matrix" where
  "zeros n = replicate n (replicate n 0)"

definition single_diag :: "nat \<Rightarrow> nat \<Rightarrow> complex \<Rightarrow> matrix" where
  "single_diag n k v = (zeros n)[k := (replicate n 0)[k := v]]"

text \<open>
  A 9x9 matrix with \<open>g1 = ... = g7 = 1\<close>, \<open>g8 = 0\<close> and \<open>b12 = 1\<close>: real, non-negative,
  symmetric, all of \<open>a1\<close> ... \<open>a8\<close> non-negative, and \<open>4 b12^2 = 4 > 1\<close>.
\<close>

definition b12_too_large :: matrix where
  "b12_too_large =
     [[0, 0, 0, 0, 0, 0, 0, 0, 0],
      [0, 1, 1, 0, 0, 0, 0, 0, 0],
      [0, 1, 1, 0, 0, 0, 0, 0, 0],
      [0, 0, 0, 1, 0, 0, 0, 0, 0],
      [0, 0, 0, 0, 1, 0, 0, 0, 0],
      [0, 0, 0, 0, 0, 1, 0, 0, 0],
      [0, 0, 0, 0, 0, 0, 1, 0, 0],
      [0, 0, 0, 0, 0, 0, 0, 1, 0],
      [0, 0, 0, 0, 0, 0, 0, 0, 0]]"

text \<open>A 4x4 matrix with a negative entry and a non-real entry.\<close>

definition negative_and_nonreal :: matrix where
  "negative_and_nonreal =
     [[0, 0, 0, 0],
      [0, - 1, 0, 0],
      [0, 0, \<i>, 0],
      [0, 0, 0, 0]]"




text \<open>
  Collaborators with simple answers that depend on the distance: for the distance \<open>L\<close> the
  DEIMOS solver returns the probabilities \<open>1/(1+L)\<close>, \<open>L/(1+L)\<close>, \<open>0\<close>; nuSQuIDS and
  Prob3 return 1/3 for every flavor; the path length for cos(zenith) \<open>c\<close> is \<open>1 - c\<close>.
\<close>

definition toy_backend :: externals where
  "toy_backend =
     \<lparr>units_eV = 1, units_km = 1, units_GeV = 1,
      Get_SquareMassDifference = (\<lambda>calls i. 0),
      GetNumE = 1, GetNumCos = 1,
      EvalFlavor = (\<lambda>calls final_flavor cz E rho. Fin (1 / 3)),
      solver_calc_osc_probs =
        (\<lambda>c. Inr (map (\<lambda>E. map (\<lambda>L. [Fin (1 / (1 + L)), Fin (L / (1 + L)), Fin 0])
                           (call_L_km c)) (call_E_GeV c))),
      calc_path_length_from_coszen = (\<lambda>cz h d. 1 - cz),
      DEFAULT_ATMO_PROD_HEIGHT_km = 0,
      DEFAULT_ATMO_DETECTOR_DEPTH_km = 0,
      prob3_probability = (\<lambda>c. Fin (1 / 3))\<rparr>"

text \<open>The matter settings that a successful \<open>set_matter("layers", ...)\<close> leaves.\<close>

definition layers_stored :: "osc_calculator \<Rightarrow> real list \<Rightarrow> real list \<Rightarrow> real list \<Rightarrow> bool" where
  "layers_stored self endpoints densities efracs =
     (matter_settings self =
        [''matter'' \<mapsto> PyStr ''layers'',
         ''layer_endpoint_km'' \<mapsto> PyArray endpoints,
         ''matter_density_g_per_cm3'' \<mapsto> PyArray densities,
         ''electron_fraction'' \<mapsto> PyArray efracs])"

text \<open>
  The flip along the distance axis of a result computed for an array of distances: axis 0 of
  \<open>[distance][flavor]\<close> (single energy), axis 1 of \<open>[energy][distance][flavor]\<close>.
\<close>

fun flip_distance :: "result \<Rightarrow> result" where
  "flip_distance (R1 v) = R1 v"
| "flip_distance (R2 m) = R2 (rev m)"
| "flip_distance (R3 t) = R3 (map rev t)"

text \<open>The number of \<open>EvolveState\<close> calls in a sequence of calls.\<close>

definition evolve_calls :: "nsq_call list \<Rightarrow> nat" where
  "evolve_calls calls = length (filter (\<lambda>c. c = EvolveState) calls)"

section \<open>Decoherence matrix checks: properties\<close>

lemma entry_zeros: "i < n \<Longrightarrow> j < n \<Longrightarrow> entry (zeros n) i j = 0"
  by (simp add: entry_def zeros_def)

lemma zeros_conditions:
  "shape_is (zeros 9) 9 9" "all_real (zeros 9)" "all_nonneg (zeros 9)" "pairs_match (zeros 9)"
  "a1 (zeros 9) = 0" "a2 (zeros 9) = 0" "a3 (zeros 9) = 0" "a4 (zeros 9) = 0"
  "a5 (zeros 9) = 0" "a6 (zeros 9) = 0" "a7 (zeros 9) = 0" "a8 (zeros 9) = 0"
  "quad12 (zeros 9)" "quad13 (zeros 9)" "quad23 (zeros 9)" "quad38 (zeros 9)"
  by (simp_all add: shape_is_def all_real_def all_nonneg_def pairs_match_def beta_pairs_def
      entry_zeros a1_def a2_def a3_def a4_def a5_def a6_def a7_def a8_def
      quad12_def quad13_def quad23_def quad38_def g_def b_def list_all_iff)
     (simp_all add: zeros_def)

lemma shape_single_diag: "shape_is (single_diag n k v) n n"
  by (auto simp: shape_is_def single_diag_def zeros_def list_all_iff
      dest!: set_update_subset_insert[THEN subsetD])

lemma real_single_diag: "all_real (single_diag n k (complex_of_real v))"
  by (auto simp: all_real_def single_diag_def zeros_def list_all_iff
      dest!: set_update_subset_insert[THEN subsetD])

lemma neg_single_diag:
  assumes k: "k < n" and v: "v < 0"
  shows "\<not> all_nonneg (single_diag n k (complex_of_real v))"
proof -
  let ?row = "(replicate n (0::complex))[k := complex_of_real v]"
  have r: "?row \<in> set (single_diag n k (complex_of_real v))"
    using k by (simp add: single_diag_def zeros_def set_update_memI)
  have e: "complex_of_real v \<in> set ?row"
    using k by (simp add: set_update_memI)
  have "\<not> list_all (\<lambda>z. Re z \<ge> 0) ?row"
    using e v by (auto simp: list_all_iff intro!: bexI[of _ "complex_of_real v"])
  then show ?thesis using r
    unfolding all_nonneg_def list_all_iff by blast
qed

lemma b12_too_large_conditions:
  "shape_is b12_too_large 9 9" "all_real b12_too_large" "all_nonneg b12_too_large"
  "pairs_match b12_too_large"
  "a1 b12_too_large = 1" "a2 b12_too_large = 1" "a3 b12_too_large = 1" "a4 b12_too_large = 1"
  "a5 b12_too_large = 1" "a6 b12_too_large = 1" "a7 b12_too_large = 1" "a8 b12_too_large = 5/3"
  "\<not> quad12 b12_too_large"
  by (simp_all add: shape_is_def all_real_def all_nonneg_def pairs_match_def beta_pairs_def
      entry_def a1_def a2_def a3_def a4_def a5_def a6_def a7_def a8_def quad12_def g_def b_def
      b12_too_large_def)

text \<open>
  The assert on \<open>a6\<close> carries the message of \<open>a1\<close>: a matrix that violates only \<open>a6\<close> is
  rejected with the message naming \<open>a1\<close>.
\<close>

lemma a6_failure_reported_as_a1:
  "check_decoherence_D_matrix (fresh Deimos False 3) (single_diag 9 6 1)
     = Inl (inequality_failure ''a1'')
   \<and> a1 (single_diag 9 6 1) = 0 \<and> a6 (single_diag 9 6 1) = - 1"
  by (simp add: check_decoherence_D_matrix_def fresh_def shape_is_def all_real_def
      all_nonneg_def pairs_match_def beta_pairs_def entry_def a1_def a2_def a3_def a4_def
      a5_def a6_def a7_def a8_def quad12_def g_def b_def single_diag_def zeros_def
      eval_nat_numeral)

text \<open>
  C3, as stated, fails: a failure does not always name the inequality violated. The matrix
  \<open>b12_too_large\<close> passes every check up to \<open>a8\<close> and violates the quadratic inequality on
  \<open>b12\<close>; the error raised carries no message.
\<close>

theorem quadratic_failure_is_unnamed:
  "check_decoherence_D_matrix (fresh Deimos False 3) b12_too_large = Inl (AssertionError None)
   \<and> shape_is b12_too_large 9 9 \<and> all_real b12_too_large \<and> all_nonneg b12_too_large
   \<and> pairs_match b12_too_large
   \<and> 0 \<le> a1 b12_too_large \<and> 0 \<le> a2 b12_too_large \<and> 0 \<le> a3 b12_too_large
   \<and> 0 \<le> a4 b12_too_large \<and> 0 \<le> a5 b12_too_large \<and> 0 \<le> a6 b12_too_large
   \<and> 0 \<le> a7 b12_too_large \<and> 0 \<le> a8 b12_too_large
   \<and> \<not> quad12 b12_too_large"
  by (simp add: check_decoherence_D_matrix_def b12_too_large_conditions fresh_def)

text \<open>
  C3, amended. For a 3-flavor calculator \<open>check_decoherence_D_matrix\<close> accepts \<open>D\<close> exactly
  when, in this order, its shape is 9x9, all entries are real, all entries are non-negative,
  the off-diagonal pairs match, \<open>a1\<close> ... \<open>a8\<close> are non-negative and the four quadratic
  inequalities hold. A failure of shape, reality, non-negativity or pairing, and a failure
  of a quadratic inequality, raise an \<open>AssertionError\<close> without message; the first violated
  of the linear inequalities \<open>a1\<close>, \<open>a2\<close>, \<open>a3\<close>, \<open>a4\<close>, \<open>a5\<close>, \<open>a7\<close>, \<open>a8\<close> is named in
  the message. The matrix is only inspected: the result is acceptance or an error.
\<close>

theorem check_decoherence_D_matrix_3flavor:
  assumes "num_neutrinos self = 3"
  shows
  "(check_decoherence_D_matrix self D = Inr [] \<longleftrightarrow>
      shape_is D 9 9 \<and> all_real D \<and> all_nonneg D \<and> pairs_match D
      \<and> 0 \<le> a1 D \<and> 0 \<le> a2 D \<and> 0 \<le> a3 D \<and> 0 \<le> a4 D
      \<and> 0 \<le> a5 D \<and> 0 \<le> a6 D \<and> 0 \<le> a7 D \<and> 0 \<le> a8 D
      \<and> quad12 D \<and> quad13 D \<and> quad23 D \<and> quad38 D)
   \<and> (\<not> (shape_is D 9 9 \<and> all_real D \<and> all_nonneg D \<and> pairs_match D) \<longrightarrow>
        check_decoherence_D_matrix self D = Inl (AssertionError None))
   \<and> (shape_is D 9 9 \<and> all_real D \<and> all_nonneg D \<and> pairs_match D \<longrightarrow>
        (a1 D < 0 \<longrightarrow>
           check_decoherence_D_matrix self D = Inl (inequality_failure ''a1''))
      \<and> (0 \<le> a1 D \<and> a2 D < 0 \<longrightarrow>
           check_decoherence_D_matrix self D = Inl (inequality_failure ''a2''))
      \<and> (0 \<le> a1 D \<and> 0 \<le> a2 D \<and> a3 D < 0 \<longrightarrow>
           check_decoherence_D_matrix self D = Inl (inequality_failure ''a3''))
      \<and> (0 \<le> a1 D \<and> 0 \<le> a2 D \<and> 0 \<le> a3 D \<and> a4 D < 0 \<longrightarrow>
           check_decoherence_D_matrix self D = Inl (inequality_failure ''a4''))
      \<and> (0 \<le> a1 D \<and> 0 \<le> a2 D \<and> 0 \<le> a3 D \<and> 0 \<le> a4 D \<and> a5 D < 0 \<longrightarrow>
           check_decoherence_D_matrix self D = Inl (inequality_failure ''a5''))
      \<and> (0 \<le> a1 D \<and> 0 \<le> a2 D \<and> 0 \<le> a3 D \<and> 0 \<le> a4 D \<and> 0 \<le> a5 D \<and> 0 \<le> a6 D
           \<and> a7 D < 0 \<longrightarrow>
           check_decoherence_D_matrix self D = Inl (inequality_failure ''a7''))
      \<and> (0 \<le> a1 D \<and> 0 \<le> a2 D \<and> 0 \<le> a3 D \<and> 0 \<le> a4 D \<and> 0 \<le> a5 D \<and> 0 \<le> a6 D
           \<and> 0 \<le> a7 D \<and> a8 D < 0 \<longrightarrow>
           check_decoherence_D_matrix self D = Inl (inequality_failure ''a8''))
      \<and> (0 \<le> a1 D \<and> 0 \<le> a2 D \<and> 0 \<le> a3 D \<and> 0 \<le> a4 D \<and> 0 \<le> a5 D \<and> 0 \<le> a6 D
           \<and> 0 \<le> a7 D \<and> 0 \<le> a8 D \<and> \<not> (quad12 D \<and> quad13 D \<and> quad23 D \<and> quad38 D) \<longrightarrow>
           check_decoherence_D_matrix self D = Inl (AssertionError None)))"
  using assms by (auto simp: check_decoherence_D_matrix_def inequality_failure_def)

theorem check_decoherence_D_matrix_3flavor_witness:
  "num_neutrinos (fresh Deimos False 3) = 3
   \<and> check_decoherence_D_matrix (fresh Deimos False 3) (zeros 9) = Inr []
   \<and> check_decoherence_D_matrix (fresh Deimos False 3) b12_too_large = Inl (AssertionError None)"
proof -
  have n: "num_neutrinos (fresh Deimos False 3) = 3" by (simp add: fresh_def)
  show ?thesis
    using n check_decoherence_D_matrix_3flavor [OF n, of "zeros 9"]
      check_decoherence_D_matrix_3flavor [OF n, of b12_too_large]
    by (simp add: zeros_conditions b12_too_large_conditions)
qed

text \<open>
  C4, as stated, fails: a 2-flavor matrix with a negative entry and a non-real entry is
  accepted.
\<close>

theorem two_flavor_negative_nonreal_accepted:
  "check_decoherence_D_matrix (fresh Nusquids False 2) negative_and_nonreal
     = Inr [Checks_not_implemented 2]
   \<and> \<not> all_nonneg negative_and_nonreal \<and> \<not> all_real negative_and_nonreal"
  by (simp add: check_decoherence_D_matrix_def fresh_def all_nonneg_def all_real_def
      negative_and_nonreal_def)

text \<open>
  C4, amended. For a 2-flavor calculator \<open>check_decoherence_D_matrix\<close> applies no check to
  \<open>D\<close>: it prints that the checks are not implemented for a 2 neutrino system and accepts
  every matrix.
\<close>

theorem check_decoherence_D_matrix_2flavor:
  "num_neutrinos self = 2 \<Longrightarrow>
   check_decoherence_D_matrix self D = Inr [Checks_not_implemented 2]"
  by (simp add: check_decoherence_D_matrix_def)

theorem check_decoherence_D_matrix_2flavor_witness:
  "num_neutrinos (fresh Prob3 False 2) = 2
   \<and> check_decoherence_D_matrix (fresh Prob3 False 2) (zeros 4) = Inr [Checks_not_implemented 2]"
proof -
  have n: "num_neutrinos (fresh Prob3 False 2) = 2" by (simp add: fresh_def)
  show ?thesis using n check_decoherence_D_matrix_2flavor [OF n, of "zeros 4"] by simp
qed

text \<open>
  C5, as stated, fails for the flavor count 2: the 4x4 matrix whose only non-zero entry is
  a negative diagonal one is accepted.
\<close>

theorem two_flavor_negative_diagonal_accepted:
  "check_decoherence_D_matrix (fresh Deimos False 2) (single_diag 4 1 (- 1))
     = Inr [Checks_not_implemented 2]
   \<and> entry (single_diag 4 1 (- 1)) 1 1 = - 1"
  by (simp add: check_decoherence_D_matrix_def fresh_def single_diag_def zeros_def entry_def)

text \<open>
  C5, amended. For the flavor count 3 the validator rejects every 9x9 matrix whose entries
  are all zero except one negative diagonal entry, and accepts the all-zeros matrix; for
  the flavor count 2 it accepts the all-zeros matrix (and, making no check, the matrix with
  one negative diagonal entry as well).
\<close>

theorem validator_negative_diagonal_and_zeros:
  "(num_neutrinos self = 3 \<and> k < 9 \<and> v < 0 \<longrightarrow>
      check_decoherence_D_matrix self (single_diag 9 k (complex_of_real v))
        = Inl (AssertionError None))
   \<and> (num_neutrinos self = 3 \<longrightarrow> check_decoherence_D_matrix self (zeros 9) = Inr [])
   \<and> (num_neutrinos self = 2 \<longrightarrow>
        check_decoherence_D_matrix self (zeros 4) = Inr [Checks_not_implemented 2]
      \<and> check_decoherence_D_matrix self (single_diag 4 k (complex_of_real v))
          = Inr [Checks_not_implemented 2])"
  by (simp add: check_decoherence_D_matrix_def shape_single_diag real_single_diag
      neg_single_diag zeros_conditions)

theorem validator_negative_diagonal_and_zeros_witness:
  "check_decoherence_D_matrix (fresh Nusquids True 3) (single_diag 9 3 (complex_of_real (- 2)))
     = Inl (AssertionError None)
   \<and> check_decoherence_D_matrix (fresh Nusquids True 3) (zeros 9) = Inr []
   \<and> check_decoherence_D_matrix (fresh Nusquids True 2) (zeros 4) = Inr [Checks_not_implemented 2]"
  using validator_negative_diagonal_and_zeros [of "fresh Nusquids True 3" 3 "- 2"]
    validator_negative_diagonal_and_zeros [of "fresh Nusquids True 2" 3 "- 2"]
  by (simp add: fresh_def)

section \<open>Matter models: properties\<close>











section \<open>Oscillation parameters: properties\<close>

lemma set_mixing_angles_ok:
  "fst (set_mixing_angles self t12 t13 t23 dcp) = Inr () \<longleftrightarrow>
     (if num_neutrinos self = 2 then t13 = None \<and> t23 = None else t13 \<noteq> None \<and> t23 \<noteq> None)"
  by (cases "tool self") (auto simp: set_mixing_angles_def Let_def)

lemma set_mass_splittings_ok:
  "fst (set_mass_splittings ext self d21 d31) = Inr () \<longleftrightarrow>
     (if num_neutrinos self = 2 then d31 = None else d31 \<noteq> None)"
  by (cases "tool self") (auto simp: set_mass_splittings_def Let_def split: option.splits)

lemma set_mixing_angles_keeps:
  "num_neutrinos (snd (set_mixing_angles self t12 t13 t23 dcp)) = num_neutrinos self"
  "tool (snd (set_mixing_angles self t12 t13 t23 dcp)) = tool self"
  by (cases "tool self"; simp add: set_mixing_angles_def Let_def call_nusquids_def)+

lemma set_mixing_angles_deimos:
  "tool self = Deimos \<Longrightarrow> fst (set_mixing_angles self t12 t13 t23 dcp) = Inr () \<Longrightarrow>
   snd (set_mixing_angles self t12 t13 t23 dcp) =
     self\<lparr>solver := (solver self)
         \<lparr>theta_rad := Some (List.map_filter (\<lambda>t. t) [Some t12, t13, t23]), deltacp := Some dcp\<rparr>\<rparr>"
  unfolding set_mixing_angles_ok
  by (simp add: set_mixing_angles_def split: if_splits)

lemma set_mixing_angles_prob3:
  "tool self = Prob3 \<Longrightarrow> fst (set_mixing_angles self t12 t13 t23 dcp) = Inr () \<Longrightarrow>
   snd (set_mixing_angles self t12 t13 t23 dcp) =
     self\<lparr>prob3_settings := (prob3_settings self)
                (''theta12'' \<mapsto> PyFloat t12,
                 ''theta13'' \<mapsto> (case t13 of None \<Rightarrow> PyNone | Some t \<Rightarrow> PyFloat t),
                 ''theta23'' \<mapsto> (case t23 of None \<Rightarrow> PyNone | Some t \<Rightarrow> PyFloat t),
                 ''deltacp'' \<mapsto> PyFloat dcp)\<rparr>"
  unfolding set_mixing_angles_ok
  by (simp add: set_mixing_angles_def split: if_splits)

lemma set_mass_splittings_deimos:
  "tool self = Deimos \<Longrightarrow> fst (set_mass_splittings ext self d21 d31) = Inr () \<Longrightarrow>
   snd (set_mass_splittings ext self d21 d31) =
     self\<lparr>solver := (solver self)
         \<lparr>mass_splittings_eV2 := Some (List.map_filter (\<lambda>t. t) [Some d21, d31])\<rparr>\<rparr>"
  unfolding set_mass_splittings_ok
  by (simp add: set_mass_splittings_def split: if_splits)

lemma set_mass_splittings_prob3:
  "tool self = Prob3 \<Longrightarrow> fst (set_mass_splittings ext self d21 d31) = Inr () \<Longrightarrow>
   snd (set_mass_splittings ext self d21 d31) =
     self\<lparr>prob3_settings := (prob3_settings self)
                (''deltam21'' \<mapsto> PyFloat d21,
                 ''deltam31'' \<mapsto> (case d31 of None \<Rightarrow> PyNone | Some d \<Rightarrow> PyFloat d))\<rparr>"
  unfolding set_mass_splittings_ok
  by (simp add: set_mass_splittings_def split: if_splits)

text \<open>
  C8, as stated, fails for the nuSQuIDS backend: after a successful \<open>set_mixing_angles\<close>,
  \<open>get_mixing_angles\<close> raises.
\<close>

theorem nusquids_get_mixing_angles_raises:
  "fst (set_mixing_angles (fresh Nusquids False 3) (1 / 2) (Some (1 / 7)) (Some (3 / 4)) 0) = Inr ()
   \<and> get_mixing_angles
        (snd (set_mixing_angles (fresh Nusquids False 3) (1 / 2) (Some (1 / 7)) (Some (3 / 4)) 0))
       = Inl (Exception ''TODO'')"
  by (simp add: set_mixing_angles_def get_mixing_angles_def fresh_def call_nusquids_def Let_def)

text \<open>
  C8, amended. After \<open>set_mixing_angles\<close> and \<open>set_mass_splittings\<close> have succeeded, on the
  DEIMOS backend \<open>get_mixing_angles\<close> and \<open>get_mass_splittings\<close> return the arrays of the
  values supplied, and on the Prob3 backend with 3 flavors they return the tuples of the
  values supplied, unchanged.
\<close>

theorem getters_return_supplied_values:
  assumes a1: "fst (set_mixing_angles self t12 t13 t23 dcp) = Inr ()"
    and a2: "fst (set_mass_splittings ext (snd (set_mixing_angles self t12 t13 t23 dcp)) d21 d31)
               = Inr ()"
  shows
   "(tool self = Deimos \<longrightarrow>
       get_mixing_angles
         (snd (set_mass_splittings ext (snd (set_mixing_angles self t12 t13 t23 dcp)) d21 d31))
         = Inr (PyArray (List.map_filter (\<lambda>t. t) [Some t12, t13, t23]))
     \<and> get_mass_splittings ext
         (snd (set_mass_splittings ext (snd (set_mixing_angles self t12 t13 t23 dcp)) d21 d31))
         = Inr (PyArray (List.map_filter (\<lambda>t. t) [Some d21, d31])))
  \<and> (tool self = Prob3 \<and> num_neutrinos self = 3 \<longrightarrow>
       get_mixing_angles
         (snd (set_mass_splittings ext (snd (set_mixing_angles self t12 t13 t23 dcp)) d21 d31))
         = Inr (PyTuple [PyFloat t12, PyFloat (the t13), PyFloat (the t23)])
     \<and> get_mass_splittings ext
         (snd (set_mass_splittings ext (snd (set_mixing_angles self t12 t13 t23 dcp)) d21 d31))
         = Inr (PyTuple [PyFloat d21, PyFloat (the d31)]))"
proof (intro conjI impI)
  let ?s1 = "snd (set_mixing_angles self t12 t13 t23 dcp)"
  let ?s2 = "snd (set_mass_splittings ext ?s1 d21 d31)"
  assume t: "tool self = Deimos"
  have t1: "tool ?s1 = Deimos" using t by (simp add: set_mixing_angles_keeps)
  have s2: "?s2 = ?s1\<lparr>solver := (solver ?s1)
         \<lparr>mass_splittings_eV2 := Some (List.map_filter (\<lambda>t. t) [Some d21, d31])\<rparr>\<rparr>"
    by (rule set_mass_splittings_deimos[OF t1 a2])
  have s1: "solver ?s1 = (solver self)
         \<lparr>theta_rad := Some (List.map_filter (\<lambda>t. t) [Some t12, t13, t23]), deltacp := Some dcp\<rparr>"
    by (simp add: set_mixing_angles_deimos[OF t a1])
  show "get_mixing_angles ?s2 = Inr (PyArray (List.map_filter (\<lambda>t. t) [Some t12, t13, t23]))"
    unfolding get_mixing_angles_def by (subst (1 2) s2) (simp add: t1 s1)
  show "get_mass_splittings ext ?s2 = Inr (PyArray (List.map_filter (\<lambda>t. t) [Some d21, d31]))"
    unfolding get_mass_splittings_def by (subst (1 2) s2) (simp add: t1 s1)
next
  let ?s1 = "snd (set_mixing_angles self t12 t13 t23 dcp)"
  let ?s2 = "snd (set_mass_splittings ext ?s1 d21 d31)"
  assume tn: "tool self = Prob3 \<and> num_neutrinos self = 3"
  then have t: "tool self = Prob3" and n: "num_neutrinos self = 3" by simp_all
  have t1: "tool ?s1 = Prob3" and n1: "num_neutrinos ?s1 = 3"
    using t n by (simp_all add: set_mixing_angles_keeps)
  have o1: "t13 \<noteq> None \<and> t23 \<noteq> None" using a1 n by (simp add: set_mixing_angles_ok)
  have o2: "d31 \<noteq> None" using a2 n by (simp add: set_mass_splittings_ok set_mixing_angles_keeps)
  have s2: "?s2 = ?s1\<lparr>prob3_settings := (prob3_settings ?s1)
                (''deltam21'' \<mapsto> PyFloat d21,
                 ''deltam31'' \<mapsto> (case d31 of None \<Rightarrow> PyNone | Some d \<Rightarrow> PyFloat d))\<rparr>"
    by (rule set_mass_splittings_prob3[OF t1 a2])
  have s1: "prob3_settings ?s1 = (prob3_settings self)
                (''theta12'' \<mapsto> PyFloat t12,
                 ''theta13'' \<mapsto> (case t13 of None \<Rightarrow> PyNone | Some t \<Rightarrow> PyFloat t),
                 ''theta23'' \<mapsto> (case t23 of None \<Rightarrow> PyNone | Some t \<Rightarrow> PyFloat t),
                 ''deltacp'' \<mapsto> PyFloat dcp)"
    by (simp add: set_mixing_angles_prob3[OF t a1])
  have tn2: "tool ?s2 = Prob3" "num_neutrinos ?s2 = 3"
    by (subst s2, simp add: t1 n1)+
  have p2: "prob3_settings ?s2 = (prob3_settings self)
                (''theta12'' \<mapsto> PyFloat t12,
                 ''theta13'' \<mapsto> (case t13 of None \<Rightarrow> PyNone | Some t \<Rightarrow> PyFloat t),
                 ''theta23'' \<mapsto> (case t23 of None \<Rightarrow> PyNone | Some t \<Rightarrow> PyFloat t),
                 ''deltacp'' \<mapsto> PyFloat dcp,
                 ''deltam21'' \<mapsto> PyFloat d21,
                 ''deltam31'' \<mapsto> (case d31 of None \<Rightarrow> PyNone | Some d \<Rightarrow> PyFloat d))"
    by (subst s2) (simp add: s1)
  show "get_mixing_angles ?s2 = Inr (PyTuple [PyFloat t12, PyFloat (the t13), PyFloat (the t23)])"
    using o1 by (auto simp: get_mixing_angles_def tn2 p2 getitem_def)
  show "get_mass_splittings ext ?s2 = Inr (PyTuple [PyFloat d21, PyFloat (the d31)])"
    using o2 by (auto simp: get_mass_splittings_def tn2 p2 getitem_def)
qed

theorem getters_return_supplied_values_witness:
  "fst (set_mixing_angles (fresh Prob3 False 3) (1 / 2) (Some (1 / 7)) (Some (3 / 4)) 0) = Inr ()
   \<and> get_mixing_angles
        (snd (set_mass_splittings toy_backend
               (snd (set_mixing_angles (fresh Prob3 False 3) (1 / 2) (Some (1 / 7)) (Some (3 / 4)) 0))
               (1 / 13000) (Some (1 / 400))))
       = Inr (PyTuple [PyFloat (1 / 2), PyFloat (1 / 7), PyFloat (3 / 4)])
   \<and> get_mass_splittings toy_backend
        (snd (set_mass_splittings toy_backend
               (snd (set_mixing_angles (fresh Prob3 False 3) (1 / 2) (Some (1 / 7)) (Some (3 / 4)) 0))
               (1 / 13000) (Some (1 / 400))))
       = Inr (PyTuple [PyFloat (1 / 13000), PyFloat (1 / 400)])"
proof -
  have n: "num_neutrinos (fresh Prob3 False 3) = 3" "tool (fresh Prob3 False 3) = Prob3"
    by (simp_all add: fresh_def)
  have a1: "fst (set_mixing_angles (fresh Prob3 False 3) (1 / 2) (Some (1 / 7)) (Some (3 / 4)) 0)
              = Inr ()"
    by (simp add: set_mixing_angles_ok n)
  have a2: "fst (set_mass_splittings toy_backend
               (snd (set_mixing_angles (fresh Prob3 False 3) (1 / 2) (Some (1 / 7)) (Some (3 / 4)) 0))
               (1 / 13000) (Some (1 / 400))) = Inr ()"
    by (simp add: set_mass_splittings_ok set_mixing_angles_keeps n)
  show ?thesis
    using a1 n getters_return_supplied_values [OF a1 a2] by simp
qed

section \<open>The entry point: properties\<close>







section \<open>Flavor indexing: properties\<close>

text \<open>
  C10. Every string passed as flavor, the recognised labels included, makes
  \<open>_get_flavor_index\<close> raise a \<open>TypeError\<close>, because the bound check compares the string
  with the flavor count; an integer is accepted exactly when it is one of 0, 1, 2 and less
  than the flavor count, and then it is its own index.
\<close>

theorem get_flavor_index_string_TypeError:
  "get_flavor_index self (FStr s) = Inl TypeError
   \<and> get_flavor_index self (FInt i) =
       (if i \<in> {0, 1, 2} \<and> i < int (num_neutrinos self) then Inr (Some i)
        else Inl (AssertionError None))"
  by (auto simp: get_flavor_index_def)

end
